theory Spec2Isabelle
  imports Main
begin

chapter \<open>The search, summary and quiz application (app.py)\<close>

text \<open>
  The repository holds one Streamlit script, \<^verbatim>\<open>src/app.py\<close>, and an earlier draft of it,
  \<^verbatim>\<open>src/ai_studio_code.py\<close>, stored inside a markdown code fence (its first and last lines
  are fence lines, so the file is not a Python module as it stands). The embedding below
  follows \<^verbatim>\<open>app.py\<close> function by function: \<^verbatim>\<open>search_web\<close>, \<^verbatim>\<open>scrape_content\<close>,
  \<^verbatim>\<open>get_summary\<close>, \<^verbatim>\<open>generate_quiz\<close> and the two page handlers of the script body. The draft
  shares line 114 and the handlers around the generative service with \<^verbatim>\<open>app.py\<close>; it has
  no content region, falls back to the body text only when no paragraph was kept, never
  tests an extraction for failure, and catches fewer exceptions in \<^verbatim>\<open>generate_quiz\<close>.

  What lies outside the script is a parameter of the model: the search provider, the
  HTTP fetch together with the HTML parser, the generative-text service and the JSON
  parser. Every exception the script can meet is a value, so that each
  \<^verbatim>\<open>try ... except\<close> of the source is a case distinction of the model.
\<close>

section \<open>Python strings\<close>

text \<open>
  A Python \<^verbatim>\<open>str\<close> is a sequence of Unicode code points, and \<^verbatim>\<open>len\<close> counts code
  points. The script's literals are Japanese, so a string is a list of code points; a
  literal is written as the list of its code points, with its reading beside it.
\<close>

type_synonym pystr = "nat list"

definition ascii :: "string \<Rightarrow> pystr" where
  "ascii s = map of_char s"

text \<open>\<^verbatim>\<open>str.isspace\<close> on one code point: the code points Python counts as whitespace.\<close>

definition isspace :: "nat \<Rightarrow> bool" where
  "isspace c \<longleftrightarrow>
     (9 \<le> c \<and> c \<le> 13) \<or> (28 \<le> c \<and> c \<le> 32) \<or> c = 133 \<or> c = 160 \<or> c = 5760 \<or>
     (8192 \<le> c \<and> c \<le> 8202) \<or> c = 8232 \<or> c = 8233 \<or> c = 8239 \<or> c = 8287 \<or> c = 12288"

text \<open>
  \<^verbatim>\<open>s.lstrip(chars)\<close> and \<^verbatim>\<open>s.rstrip(chars)\<close> remove, from one end, every character that
  occurs in \<^verbatim>\<open>chars\<close>: the argument is a set of characters, not a prefix or a suffix.
  \<^verbatim>\<open>s.strip()\<close> removes whitespace from both ends.
\<close>

definition lstrip :: "pystr \<Rightarrow> pystr \<Rightarrow> pystr" where
  "lstrip chars s = dropWhile (\<lambda>c. c \<in> set chars) s"

definition rstrip :: "pystr \<Rightarrow> pystr \<Rightarrow> pystr" where
  "rstrip chars s = rev (dropWhile (\<lambda>c. c \<in> set chars) (rev s))"

definition strip :: "pystr \<Rightarrow> pystr" where
  "strip s = rev (dropWhile isspace (rev (dropWhile isspace s)))"

definition startswith :: "pystr \<Rightarrow> pystr \<Rightarrow> bool" where
  "startswith s p \<longleftrightarrow> take (length p) s = p"

text \<open>\<^verbatim>\<open>sep.join(xs)\<close>.\<close>

fun join :: "pystr \<Rightarrow> pystr list \<Rightarrow> pystr" where
  "join sep [] = []"
| "join sep [x] = x"
| "join sep (x # y # ys) = x @ sep @ join sep (y # ys)"

text \<open>\<^verbatim>\<open>str(n)\<close> for a natural number: its decimal digits.\<close>

fun str_nat :: "nat \<Rightarrow> pystr" where
  "str_nat n = (if n < 10 then [48 + n] else str_nat (n div 10) @ [48 + n mod 10])"

text \<open>\<^verbatim>\<open>k in s\<close> for two strings: \<^verbatim>\<open>k\<close> occurs in \<^verbatim>\<open>s\<close> as a substring.\<close>

fun substring :: "pystr \<Rightarrow> pystr \<Rightarrow> bool" where
  "substring k [] = (k = [])"
| "substring k (c # cs) = (startswith (c # cs) k \<or> substring k cs)"

section \<open>Exceptions\<close>

text \<open>
  The exceptions the script can meet. \<open>RequestException\<close> stands for
  \<^verbatim>\<open>requests.RequestException\<close> and its subclasses (connection errors, timeouts, and the
  \<^verbatim>\<open>HTTPError\<close> that \<^verbatim>\<open>raise_for_status\<close> raises for an error status); \<open>OtherException\<close>
  for any other subclass of \<^verbatim>\<open>Exception\<close>, with its message.
\<close>

datatype exn =
    RequestException
  | AttributeError
  | TypeError
  | KeyError
  | JSONDecodeError
  | OtherException pystr

section \<open>Parsed HTML\<close>

text \<open>
  The tree that \<^verbatim>\<open>BeautifulSoup(..., 'html.parser')\<close> builds: a tag with its name and
  contents, or a string. The parser gives a string the class of its place: plain text is
  a \<^verbatim>\<open>NavigableString\<close>, a CDATA section a \<^verbatim>\<open>CData\<close>, the text of a \<^verbatim>\<open>script\<close> element a
  \<^verbatim>\<open>Script\<close>, that of a \<^verbatim>\<open>style\<close> element a \<^verbatim>\<open>Stylesheet\<close>, and a comment a \<^verbatim>\<open>Comment\<close>
  (which stands here for the other special strings too: doctype, declaration, processing
  instruction, template and ruby text). The \<^verbatim>\<open>soup\<close> object is the list of top-level
  nodes. The parser adds no element of its own: a response without markup has no
  \<^verbatim>\<open>body\<close> element, and an empty response parses to the empty list.
\<close>

datatype node =
    NavigableString pystr
  | CData pystr
  | Comment pystr
  | Script pystr
  | Stylesheet pystr
  | Tag string "node list"

text \<open>All tags named \<open>name\<close> among a node and its descendants, in document order.\<close>

fun find_all_self :: "string \<Rightarrow> node \<Rightarrow> node list" where
  "find_all_self name (Tag n contents) =
     (if n = name then [Tag n contents] else []) @ concat (map (find_all_self name) contents)"
| "find_all_self name other = []"

text \<open>\<^verbatim>\<open>tag.find_all(name, recursive=True)\<close>: the descendants of \<^verbatim>\<open>tag\<close> named \<open>name\<close>.\<close>

fun find_all :: "string \<Rightarrow> node \<Rightarrow> node list" where
  "find_all name (Tag n contents) = concat (map (find_all_self name) contents)"
| "find_all name other = []"

text \<open>\<^verbatim>\<open>soup.find(name)\<close>: the first such tag of the document, or \<^verbatim>\<open>None\<close>.\<close>

definition soup_find :: "string \<Rightarrow> node list \<Rightarrow> node option" where
  "soup_find name soup =
     (case concat (map (find_all_self name) soup) of [] \<Rightarrow> None | t # _ \<Rightarrow> Some t)"

text \<open>
  The strings below a node that \<^verbatim>\<open>get_text\<close> reads, in document order: called on a
  \<^verbatim>\<open>main\<close>, \<^verbatim>\<open>article\<close>, \<^verbatim>\<open>body\<close> or \<^verbatim>\<open>p\<close> tag it takes the strings of class
  \<^verbatim>\<open>NavigableString\<close> and \<^verbatim>\<open>CData\<close> and skips comments, scripts and stylesheets.
\<close>

fun strings :: "node \<Rightarrow> pystr list" where
  "strings (NavigableString s) = [s]"
| "strings (CData s) = [s]"
| "strings (Tag n contents) = concat (map strings contents)"
| "strings other = []"

text \<open>
  \<^verbatim>\<open>tag.get_text(separator, strip)\<close>: the strings below the tag joined by the separator;
  with \<^verbatim>\<open>strip=True\<close> each string is stripped first and the empty ones are left out.
\<close>

definition get_text :: "pystr \<Rightarrow> bool \<Rightarrow> node \<Rightarrow> pystr" where
  "get_text separator strp t =
     join separator
       (if strp then filter (\<lambda>s. s \<noteq> []) (map strip (strings t)) else strings t)"

section \<open>Content extractor: scrape_content\<close>

text \<open>
  What lines 27 to 29 of \<^verbatim>\<open>app.py\<close> give for one URL: either \<^verbatim>\<open>requests.get\<close>,
  \<^verbatim>\<open>raise_for_status\<close> or the parser raised, or the response was parsed into a tree.
  The script never reads the status code: it sees a failed HTTP call only as the
  \<open>RequestException\<close> the library raises.
\<close>

datatype fetched = Raised exn | Response "node list"

text \<open>
  Lines 27 and 28 on what the network answers. \<^verbatim>\<open>requests.get\<close> either raises a
  \<^verbatim>\<open>RequestException\<close> (no connection, a timeout) or returns the final response, with
  its status code and a body; \<^verbatim>\<open>raise_for_status\<close> of the requests library then raises
  \<^verbatim>\<open>HTTPError\<close>, a \<^verbatim>\<open>RequestException\<close>, for a status from 400 to 599 and for no other. A
  response with any other status goes on to the parser.
\<close>

datatype reply = NoReply | Reply nat "node list"

definition raise_for_status :: "nat \<Rightarrow> bool" where
  "raise_for_status status \<longleftrightarrow> 400 \<le> status \<and> status < 600"

definition fetch :: "reply \<Rightarrow> fetched" where
  "fetch r =
     (case r of
        NoReply \<Rightarrow> Raised RequestException
      | Reply status soup \<Rightarrow>
         if raise_for_status status then Raised RequestException else Response soup)"

text \<open>\<^verbatim>\<open>"\<dots>: "\<close> literals of lines 43 and 45:
  "kontentsu no shutoku ni shippai shimashita: " (fetching the content failed) and
  "yokisenu era de kontentsu shutoku ni shippai shimashita: " (an unexpected error).\<close>

definition fetch_failed_message :: pystr where
  "fetch_failed_message =
     [12467, 12531, 12486, 12531, 12484, 12398, 21462, 24471, 12395, 22833, 25943, 12375,
      12414, 12375, 12383, 58, 32]"

definition unexpected_error_message :: pystr where
  "unexpected_error_message =
     [20104, 26399, 12379, 12396, 12456, 12521, 12540, 12391, 12467, 12531, 12486, 12531,
      12484, 21462, 24471, 12395, 22833, 25943, 12375, 12414, 12375, 12383, 58, 32]"

text \<open>Line 32: \<^verbatim>\<open>soup.find('main') or soup.find('article') or soup.body\<close>.\<close>

definition main_content :: "node list \<Rightarrow> node option" where
  "main_content soup =
     (case soup_find ''main'' soup of
        Some m \<Rightarrow> Some m
      | None \<Rightarrow>
         (case soup_find ''article'' soup of
            Some a \<Rightarrow> Some a
          | None \<Rightarrow> soup_find ''body'' soup))"

text \<open>Lines 34 and 35: the paragraphs of the region whose stripped text is longer than 50.\<close>

definition paragraph_content :: "node \<Rightarrow> pystr" where
  "paragraph_content region =
     (let paragraphs = find_all ''p'' region
      in join [10] [get_text [] True p. p \<leftarrow> paragraphs, length (get_text [] True p) > 50])"

text \<open>
  The body of the \<^verbatim>\<open>try\<close> block (lines 24 to 41). When \<^verbatim>\<open>main_content\<close> is \<^verbatim>\<open>None\<close>,
  line 34 calls \<^verbatim>\<open>find_all\<close> on \<^verbatim>\<open>None\<close> and raises \<^verbatim>\<open>AttributeError\<close>.
\<close>

definition scrape_content_try :: "fetched \<Rightarrow> exn + pystr" where
  "scrape_content_try f =
     (case f of
        Raised e \<Rightarrow> Inl e
      | Response soup \<Rightarrow>
         (case main_content soup of
            None \<Rightarrow> Inl AttributeError
          | Some region \<Rightarrow>
             (let content = paragraph_content region;
                  content = (if length content < 200 then get_text [10] True region else content)
              in Inr (take 4000 content))))"

text \<open>
  \<^verbatim>\<open>scrape_content(url)\<close> with its two handlers (lines 42 to 45); \<open>requests_get\<close> is
  what the network answers for a URL at the moment of the call.
\<close>

definition scrape_content :: "(pystr \<Rightarrow> fetched) \<Rightarrow> pystr \<Rightarrow> pystr" where
  "scrape_content requests_get url =
     (case scrape_content_try (requests_get url) of
        Inr content \<Rightarrow> content
      | Inl RequestException \<Rightarrow> fetch_failed_message @ url
      | Inl _ \<Rightarrow> unexpected_error_message @ url)"

section \<open>Research pipeline: search_web and get_summary\<close>

text \<open>One entry of the search provider's result list (the keys the script reads).\<close>

record search_result =
  title :: pystr
  href :: pystr

text \<open>
  \<^verbatim>\<open>search_web(query, max_results=4)\<close>: the provider's results, or the empty list when the
  provider raises.
\<close>

definition search_web :: "(pystr \<Rightarrow> nat \<Rightarrow> exn + search_result list) \<Rightarrow> pystr \<Rightarrow> search_result list" where
  "search_web ddgs_text q = (case ddgs_text q 4 of Inr results \<Rightarrow> results | Inl e \<Rightarrow> [])"

text \<open>The calls a run makes to the outside, in order.\<close>

datatype call = HttpGet pystr | GenerateContent pystr

text \<open>The two prefixes of line 57: "kontentsu no shutoku ni shippai" and "yokisenu era".\<close>

definition fetch_failed_prefix :: pystr where
  "fetch_failed_prefix =
     [12467, 12531, 12486, 12531, 12484, 12398, 21462, 24471, 12395, 22833, 25943]"

definition unexpected_error_prefix :: pystr where
  "unexpected_error_prefix = [20104, 26399, 12379, 12396, 12456, 12521, 12540]"

text \<open>Line 58: the block of one source, \<^verbatim>\<open>"--- sosu {i+1} ({title}) ---\n{content}\n\n"\<close>.\<close>

definition source_block :: "nat \<Rightarrow> search_result \<Rightarrow> pystr \<Rightarrow> pystr" where
  "source_block i result content =
     [45, 45, 45, 32, 12477, 12540, 12473, 32] @ str_nat (i + 1) @ [32, 40] @ title result @
     [41, 32, 45, 45, 45, 10] @ content @ [10, 10]"

text \<open>
  The loop of lines 55 to 60, one step: \<open>requests_get i\<close> is what the network answers
  during the \<open>i\<close>-th iteration. The progress bar and the pause of half a second are
  left out.
\<close>

record gathering =
  scraped_contents :: "pystr list"
  calls :: "call list"

definition gather_step :: "(nat \<Rightarrow> pystr \<Rightarrow> fetched) \<Rightarrow> nat \<times> search_result \<Rightarrow> gathering \<Rightarrow> gathering" where
  "gather_step requests_get ir g =
     (case ir of (i, result) \<Rightarrow>
        (let content = scrape_content (requests_get i) (href result)
         in g\<lparr>scraped_contents :=
                 (if \<not> startswith content fetch_failed_prefix \<and>
                     \<not> startswith content unexpected_error_prefix
                  then scraped_contents g @ [source_block i result content]
                  else scraped_contents g),
               calls := calls g @ [HttpGet (href result)]\<rparr>))"

definition gather :: "(nat \<Rightarrow> pystr \<Rightarrow> fetched) \<Rightarrow> search_result list \<Rightarrow> gathering" where
  "gather requests_get search_results =
     fold (gather_step requests_get) (enumerate 0 search_results)
       \<lparr>scraped_contents = [], calls = []\<rparr>"

text \<open>The literal of line 65: "subete no sosu kara kontentsu wo shutoku dekimasen deshita ..."
  (no content could be fetched from any source).\<close>

definition all_failed_message :: pystr where
  "all_failed_message =
     [12377, 12409, 12390, 12398, 12477, 12540, 12473, 12363, 12425, 12467, 12531, 12486,
      12531, 12484, 12434, 21462, 24471, 12391, 12365, 12414, 12379, 12435, 12391, 12375,
      12383, 12290, 21029, 12398, 12461, 12540, 12527, 12540, 12489, 12391, 35430, 12377,
      12363, 12289, 26178, 38291, 12434, 12362, 12356, 12390, 20877, 24230, 23455, 34892,
      12375, 12390, 12367, 12384, 12373, 12356, 12290]"

text \<open>The prompt of lines 67 to 82, around the query and the joined blocks.\<close>

definition summary_prompt_head :: pystr where
  "summary_prompt_head =
     [10, 32, 32, 32, 32, 12518, 12540, 12470, 12540, 12398, 26908, 32034, 12463, 12456,
      12522, 12392, 12289, 87, 101, 98, 12363, 12425, 21454, 38598, 12375, 12383, 20197,
      19979, 12398, 24773, 22577, 12434, 22522, 12395, 12289, 21253, 25324, 30340, 12391,
      20998, 12363, 12426, 12420, 12377, 12356, 35201, 32004, 12434, 20316, 25104, 12375,
      12390, 12367, 12384, 12373, 12356, 12290, 10, 10, 32, 32, 32, 32, 35, 32, 26908, 32034,
      12463, 12456, 12522, 58, 10, 32, 32, 32, 32]"

definition summary_prompt_middle :: pystr where
  "summary_prompt_middle =
     [10, 10, 32, 32, 32, 32, 35, 32, 87, 101, 98, 12363, 12425, 12398, 21454, 38598, 24773,
      22577, 58, 10, 32, 32, 32, 32]"

definition summary_prompt_tail :: pystr where
  "summary_prompt_tail =
     [10, 10, 32, 32, 32, 32, 35, 32, 29983, 25104, 12377, 12427, 35201, 32004, 12398, 12523,
      12540, 12523, 58, 10, 32, 32, 32, 32, 45, 32, 12510, 12540, 12463, 12480, 12454, 12531,
      24418, 24335, 12434, 20351, 29992, 12375, 12390, 12289, 37325, 35201, 12394, 12509,
      12452, 12531, 12488, 12434, 31623, 26465, 26360, 12365, 12391, 25972, 29702, 12375,
      12390, 12367, 12384, 12373, 12356, 12290, 10, 32, 32, 32, 32, 45, 32, 23554, 38272,
      29992, 35486, 12395, 12399, 31777, 21336, 12394, 35500, 26126, 12434, 21152, 12360,
      12390, 12367, 12384, 12373, 12356, 12290, 10, 32, 32, 32, 32, 45, 32, 20840, 20307,
      12392, 12375, 12390, 12289, 20013, 31435, 30340, 12363, 12388, 23458, 35251, 30340,
      12394, 35222, 28857, 12391, 35352, 36848, 12375, 12390, 12367, 12384, 12373, 12356,
      12290, 10, 10, 32, 32, 32, 32, 35, 32, 35201, 32004, 58, 10, 32, 32, 32, 32]"

definition summary_prompt :: "pystr \<Rightarrow> pystr list \<Rightarrow> pystr" where
  "summary_prompt q blocks =
     summary_prompt_head @ q @ summary_prompt_middle @ concat blocks @ summary_prompt_tail"

text \<open>The literal of line 87: "yoyaku no seiseichu ni era ga hassei shimashita: "
  (an error occurred while generating the summary).\<close>

definition generation_error_message :: pystr where
  "generation_error_message =
     [35201, 32004, 12398, 29983, 25104, 20013, 12395, 12456, 12521, 12540, 12364, 30330,
      29983, 12375, 12414, 12375, 12383, 58, 32]"

text \<open>
  \<^verbatim>\<open>get_summary(api_key, query, search_results)\<close>. \<open>generate_content api_key prompt\<close> is
  the generative-text service: \<open>Inr\<close> the text of its response, \<open>Inl\<close> the message of the
  exception that \<^verbatim>\<open>model.generate_content\<close> or \<^verbatim>\<open>response.text\<close> raised. The result is the
  returned summary with the calls the run made.
\<close>

definition get_summary ::
  "(pystr \<Rightarrow> pystr \<Rightarrow> pystr + pystr) \<Rightarrow> (nat \<Rightarrow> pystr \<Rightarrow> fetched) \<Rightarrow>
   pystr \<Rightarrow> pystr \<Rightarrow> search_result list \<Rightarrow> pystr \<times> call list" where
  "get_summary generate_content requests_get api_key q search_results =
     (let g = gather requests_get search_results
      in if scraped_contents g = [] then (all_failed_message, calls g)
         else
           (let prompt = summary_prompt q (scraped_contents g)
            in (case generate_content api_key prompt of
                  Inr text \<Rightarrow> text
                | Inl e \<Rightarrow> generation_error_message @ e,
                calls g @ [GenerateContent prompt])))"

section \<open>Quiz generator: generate_quiz\<close>

text \<open>
  The value \<^verbatim>\<open>json.loads\<close> returns. An object is the list of its keys with their values,
  each key once, as the Python dict holds them.
\<close>

datatype json =
    JNull
  | JBool bool
  | JNumber int
  | JString pystr
  | JArray "json list"
  | JObject "(pystr \<times> json) list"

text \<open>
  The three Python operations line 116 applies to the parsed value: \<^verbatim>\<open>k in v\<close>,
  \<^verbatim>\<open>v[k]\<close> and \<^verbatim>\<open>len(v)\<close>, each with the \<^verbatim>\<open>TypeError\<close> or \<^verbatim>\<open>KeyError\<close> it raises.
\<close>

definition py_in :: "pystr \<Rightarrow> json \<Rightarrow> exn + bool" where
  "py_in k v =
     (case v of
        JObject kvs \<Rightarrow> Inr (map_of kvs k \<noteq> None)
      | JArray xs \<Rightarrow> Inr (List.member xs (JString k))
      | JString s \<Rightarrow> Inr (substring k s)
      | _ \<Rightarrow> Inl TypeError)"

definition py_getitem :: "json \<Rightarrow> pystr \<Rightarrow> exn + json" where
  "py_getitem v k =
     (case v of
        JObject kvs \<Rightarrow> (case map_of kvs k of Some x \<Rightarrow> Inr x | None \<Rightarrow> Inl KeyError)
      | _ \<Rightarrow> Inl TypeError)"

definition py_len :: "json \<Rightarrow> exn + nat" where
  "py_len v =
     (case v of
        JObject kvs \<Rightarrow> Inr (length (remdups (map fst kvs)))
      | JArray xs \<Rightarrow> Inr (length xs)
      | JString s \<Rightarrow> Inr (length s)
      | _ \<Rightarrow> Inl TypeError)"

text \<open>\<^verbatim>\<open>all(k in quiz_data for k in keys)\<close>: it stops at the first key that is absent.\<close>

fun all_in :: "pystr list \<Rightarrow> json \<Rightarrow> exn + bool" where
  "all_in [] v = Inr True"
| "all_in (k # ks) v =
     (case py_in k v of
        Inl e \<Rightarrow> Inl e
      | Inr present \<Rightarrow> if present then all_in ks v else Inr False)"

definition required_keys :: "pystr list" where
  "required_keys = [ascii ''question'', ascii ''options'', ascii ''answer'', ascii ''explanation'']"

text \<open>The prompt of lines 94 to 111, around the query and the summary of the history item.\<close>

definition quiz_prompt_head :: pystr where
  "quiz_prompt_head =
     [10, 32, 32, 32, 32, 20197, 19979, 12398, 26908, 32034, 23653, 27508, 65288, 26908,
      32034, 12463, 12456, 12522, 12392, 65, 73, 12395, 12424, 12427, 35201, 32004, 65289,
      12434, 22522, 12395, 12375, 12390, 12289, 12381, 12398, 20869, 23481, 12398, 29702,
      35299, 24230, 12434, 28204, 12427, 12383, 12417, 12398, 39640, 21697, 36074, 12394, 52,
      25246, 12463, 12452, 12474, 12434, 49, 21839, 20316, 25104, 12375, 12390, 12367, 12384,
      12373, 12356, 12290, 10, 32, 32, 32, 32, 24517, 12378, 20197, 19979, 12398, 74, 83, 79,
      78, 24418, 24335, 12391, 12289, 26085, 26412, 35486, 12391, 20986, 21147, 12375, 12390,
      12367, 12384, 12373, 12356, 12290, 10, 10, 32, 32, 32, 32, 123, 10, 32, 32, 32, 32, 32,
      32, 34, 113, 117, 101, 115, 116, 105, 111, 110, 34, 58, 32, 34, 65288, 12371, 12371,
      12395, 21839, 38988, 25991, 65289, 34, 44, 10, 32, 32, 32, 32, 32, 32, 34, 111, 112,
      116, 105, 111, 110, 115, 34, 58, 32, 91, 34, 65288, 36984, 25246, 32930, 49, 65289, 34,
      44, 32, 34, 65288, 36984, 25246, 32930, 50, 65289, 34, 44, 32, 34, 65288, 36984, 25246,
      32930, 51, 65289, 34, 44, 32, 34, 65288, 36984, 25246, 32930, 52, 65289, 34, 93, 44, 10,
      32, 32, 32, 32, 32, 32, 34, 97, 110, 115, 119, 101, 114, 34, 58, 32, 34, 65288, 12371,
      12371, 12395, 27491, 35299, 12398, 36984, 25246, 32930, 12398, 25991, 23383, 21015,
      65289, 34, 44, 10, 32, 32, 32, 32, 32, 32, 34, 101, 120, 112, 108, 97, 110, 97, 116,
      105, 111, 110, 34, 58, 32, 34, 65288, 12371, 12371, 12395, 12289, 12394, 12380, 12381,
      12428, 12364, 27491, 35299, 12394, 12398, 12363, 12434, 35500, 26126, 12377, 12427,
      19969, 23527, 12394, 35299, 35500, 25991, 65289, 34, 10, 32, 32, 32, 32, 125, 10, 10,
      32, 32, 32, 32, 35, 32, 26908, 32034, 23653, 27508, 58, 10, 32, 32, 32, 32, 35, 35, 32,
      12463, 12456, 12522, 58, 10, 32, 32, 32, 32]"

definition quiz_prompt_middle :: pystr where
  "quiz_prompt_middle =
     [10, 10, 32, 32, 32, 32, 35, 35, 32, 35201, 32004, 58, 10, 32, 32, 32, 32]"

definition quiz_prompt_tail :: pystr where
  "quiz_prompt_tail =
     [10, 32, 32, 32, 32]"

record history_item =
  query :: pystr
  summary :: pystr
  sources :: "(pystr \<times> pystr) list"

definition quiz_prompt :: "history_item \<Rightarrow> pystr" where
  "quiz_prompt item =
     quiz_prompt_head @ query item @ quiz_prompt_middle @ summary item @ quiz_prompt_tail"

text \<open>
  Line 114: \<^verbatim>\<open>response.text.strip().lstrip(F).rstrip(G).strip()\<close>, where \<^verbatim>\<open>F\<close> is three
  backquotes followed by \<^verbatim>\<open>json\<close> and \<^verbatim>\<open>G\<close> is three backquotes (code point 96).
\<close>

definition cleaned_response :: "pystr \<Rightarrow> pystr" where
  "cleaned_response text =
     strip (rstrip [96, 96, 96] (lstrip [96, 96, 96, 106, 115, 111, 110] (strip text)))"

text \<open>
  The body of the \<^verbatim>\<open>try\<close> block (lines 113 to 119); \<open>json_loads\<close> is the JSON parser,
  \<open>None\<close> where \<^verbatim>\<open>json.loads\<close> raises \<^verbatim>\<open>JSONDecodeError\<close>. The result \<open>Inr None\<close> is the
  \<^verbatim>\<open>return None\<close> of line 119.
\<close>

definition generate_quiz_try ::
  "(pystr \<Rightarrow> pystr \<Rightarrow> pystr + pystr) \<Rightarrow> (pystr \<Rightarrow> json option) \<Rightarrow>
   pystr \<Rightarrow> history_item \<Rightarrow> exn + json option" where
  "generate_quiz_try generate_content json_loads api_key item =
     (case generate_content api_key (quiz_prompt item) of
        Inl e \<Rightarrow> Inl (OtherException e)
      | Inr text \<Rightarrow>
         (case json_loads (cleaned_response text) of
            None \<Rightarrow> Inl JSONDecodeError
          | Some quiz_data \<Rightarrow>
             (case all_in required_keys quiz_data of
                Inl e \<Rightarrow> Inl e
              | Inr present \<Rightarrow>
                 if \<not> present then Inr None
                 else
                   (case py_getitem quiz_data (ascii ''options'') of
                      Inl e \<Rightarrow> Inl e
                    | Inr opts \<Rightarrow>
                       (case py_len opts of
                          Inl e \<Rightarrow> Inl e
                        | Inr n \<Rightarrow> if n = 4 then Inr (Some quiz_data) else Inr None)))))"

text \<open>\<^verbatim>\<open>generate_quiz(api_key, history_item)\<close>: line 120 turns every exception into \<^verbatim>\<open>None\<close>.\<close>

definition generate_quiz ::
  "(pystr \<Rightarrow> pystr \<Rightarrow> pystr + pystr) \<Rightarrow> (pystr \<Rightarrow> json option) \<Rightarrow>
   pystr \<Rightarrow> history_item \<Rightarrow> json option" where
  "generate_quiz generate_content json_loads api_key item =
     (case generate_quiz_try generate_content json_loads api_key item of
        Inl e \<Rightarrow> None
      | Inr r \<Rightarrow> r)"

section \<open>Session state and the two page handlers\<close>

text \<open>
  \<^verbatim>\<open>st.session_state\<close>: the history list, the quizzes keyed by a position in that list,
  and the API key.
\<close>

record session_state =
  search_history :: "history_item list"
  quizzes :: "nat \<rightharpoonup> json"
  api_key :: pystr

definition initial_state :: session_state where
  "initial_state = \<lparr>search_history = [], quizzes = Map.empty, api_key = []\<rparr>"

text \<open>
  The search page when its button is pressed with \<open>q\<close> in the text field (lines 157 to
  176). The button is disabled without an API key. \<^verbatim>\<open>list.insert(0, x)\<close> puts \<open>x\<close> in front.
\<close>

definition search_page ::
  "(pystr \<Rightarrow> nat \<Rightarrow> exn + search_result list) \<Rightarrow> (nat \<Rightarrow> pystr \<Rightarrow> fetched) \<Rightarrow>
   (pystr \<Rightarrow> pystr \<Rightarrow> pystr + pystr) \<Rightarrow> pystr \<Rightarrow> session_state \<Rightarrow> session_state" where
  "search_page ddgs_text requests_get generate_content q st =
     (if api_key st = [] then st
      else if q = [] then st
      else
        (let search_results = search_web ddgs_text q
         in if search_results = [] then st
            else
              (let summ = fst (get_summary generate_content requests_get (api_key st) q search_results);
                   item = \<lparr>query = q, summary = summ,
                           sources = map (\<lambda>r. (title r, href r)) search_results\<rparr>
               in st\<lparr>search_history := item # search_history st\<rparr>)))"

text \<open>\<^verbatim>\<open>if quiz:\<close> of line 213: the truth value Python gives a parsed JSON value.\<close>

definition truthy :: "json \<Rightarrow> bool" where
  "truthy v =
     (case v of
        JNull \<Rightarrow> False
      | JBool b \<Rightarrow> b
      | JNumber n \<Rightarrow> n \<noteq> 0
      | JString s \<Rightarrow> s \<noteq> []
      | JArray xs \<Rightarrow> xs \<noteq> []
      | JObject kvs \<Rightarrow> kvs \<noteq> [])"

text \<open>
  The history page when the quiz button of row \<open>i\<close> is pressed (lines 187 to 219). Row
  \<open>i\<close> exists for \<open>i\<close> below the length of the history, and shows the button only while
  \<open>i\<close> is not a key of the quizzes (line 197) and an API key is set.
\<close>

definition quiz_button ::
  "(pystr \<Rightarrow> pystr \<Rightarrow> pystr + pystr) \<Rightarrow> (pystr \<Rightarrow> json option) \<Rightarrow>
   nat \<Rightarrow> session_state \<Rightarrow> session_state" where
  "quiz_button generate_content json_loads i st =
     (if api_key st = [] \<or> length (search_history st) \<le> i \<or> quizzes st i \<noteq> None then st
      else
        (case generate_quiz generate_content json_loads (api_key st) (search_history st ! i) of
           None \<Rightarrow> st
         | Some quiz \<Rightarrow>
            if truthy quiz then st\<lparr>quizzes := (quizzes st)(i \<mapsto> quiz)\<rparr> else st))"

text \<open>Line 197 and 198: the quiz the history page shows in row \<open>i\<close>.\<close>

definition shown_quiz :: "session_state \<Rightarrow> nat \<Rightarrow> (history_item \<times> json) option" where
  "shown_quiz st i =
     (if i < length (search_history st)
      then (case quizzes st i of None \<Rightarrow> None | Some quiz \<Rightarrow> Some (search_history st ! i, quiz))
      else None)"

section \<open>Notions used in the statements\<close>

text \<open>
  Line 57 read as a predicate: the text starts with one of the two failure prefixes, so
  \<^verbatim>\<open>get_summary\<close> leaves the source out.
\<close>

definition looks_failed :: "pystr \<Rightarrow> bool" where
  "looks_failed content \<longleftrightarrow>
     startswith content fetch_failed_prefix \<or> startswith content unexpected_error_prefix"

text \<open>What one iteration of the loop adds to \<^verbatim>\<open>scraped_contents\<close>.\<close>

definition blocks_of :: "(nat \<Rightarrow> pystr \<Rightarrow> fetched) \<Rightarrow> nat \<times> search_result \<Rightarrow> pystr list" where
  "blocks_of requests_get ir =
     (let content = scrape_content (requests_get (fst ir)) (href (snd ir))
      in if looks_failed content then [] else [source_block (fst ir) (snd ir) content])"

text \<open>
  The trimmed text of a paragraph, \<^verbatim>\<open>p.get_text().strip()\<close>: all its text, with the
  whitespace at the two ends removed.
\<close>

definition trimmed_text :: "node \<Rightarrow> pystr" where
  "trimmed_text p = strip (get_text [] False p)"

section \<open>Example inputs\<close>

definition demo_url :: pystr where
  "demo_url = ascii ''http://a''"

text \<open>An empty response body; a document whose body holds only whitespace.\<close>

definition page_without_body :: "node list" where
  "page_without_body = []"

definition page_with_empty_body :: "node list" where
  "page_with_empty_body = [Tag ''html'' [Tag ''body'' [NavigableString [32, 10]]]]"

text \<open>A body with the text "hi" and one paragraph of 60 letters.\<close>

definition sparse_body :: node where
  "sparse_body =
     Tag ''body'' [NavigableString [104, 105], Tag ''p'' [NavigableString (replicate 60 97)]]"

definition sparse_page :: "node list" where
  "sparse_page = [sparse_body]"

text \<open>
  A document with an \<^verbatim>\<open>article\<close> before its \<^verbatim>\<open>main\<close>; the \<^verbatim>\<open>main\<close> holds a paragraph of
  120 letters between two spaces, a paragraph of exactly 50 letters, and a nested
  paragraph of 120 letters.
\<close>

definition rich_main :: node where
  "rich_main =
     Tag ''main''
       [Tag ''p'' [NavigableString (32 # replicate 120 97 @ [32])],
        Tag ''p'' [NavigableString (replicate 50 120)],
        Tag ''div'' [Tag ''p'' [NavigableString (replicate 120 98)]]]"

definition rich_page :: "node list" where
  "rich_page =
     [Tag ''html''
        [Tag ''body''
           [Tag ''article'' [Tag ''p'' [NavigableString (replicate 120 99)]], rich_main]]]"

text \<open>
  A paragraph with inline markup: 25 letters and a space, then a \<^verbatim>\<open>b\<close> element holding a
  space and 25 letters. In a \<^verbatim>\<open>main\<close> element it is followed by two paragraphs of 120
  letters.
\<close>

definition inline_paragraph :: node where
  "inline_paragraph =
     Tag ''p''
       [NavigableString (replicate 25 97 @ [32]),
        Tag ''b'' [NavigableString (32 # replicate 25 98)]]"

definition inline_main :: node where
  "inline_main =
     Tag ''main''
       [inline_paragraph,
        Tag ''p'' [NavigableString (replicate 120 99)],
        Tag ''p'' [NavigableString (replicate 120 100)]]"

definition inline_page :: "node list" where
  "inline_page = [inline_main]"

text \<open>Two search results; networks that fail always, that answer the second request only,
  and that serve a page whose text is the second failure prefix; a failing service.\<close>

definition demo_results :: "search_result list" where
  "demo_results =
     [\<lparr>title = ascii ''A'', href = demo_url\<rparr>, \<lparr>title = ascii ''B'', href = ascii ''http://b''\<rparr>]"

definition offline :: "nat \<Rightarrow> pystr \<Rightarrow> fetched" where
  "offline i url = Raised RequestException"

definition second_only :: "nat \<Rightarrow> pystr \<Rightarrow> fetched" where
  "second_only i url = (if i = 1 then Response sparse_page else Raised RequestException)"

definition misleading_page :: "node list" where
  "misleading_page = [Tag ''body'' [NavigableString unexpected_error_prefix]]"

definition misleading :: "nat \<Rightarrow> pystr \<Rightarrow> fetched" where
  "misleading i url = Response misleading_page"

definition quota_exceeded :: "pystr \<Rightarrow> pystr \<Rightarrow> pystr + pystr" where
  "quota_exceeded key prompt = Inl (ascii ''quota'')"

definition demo_key :: pystr where
  "demo_key = ascii ''k''"

definition demo_query :: pystr where
  "demo_query = ascii ''q''"

text \<open>
  A response wrapped in a markdown code fence: three backquotes and an info string, a
  newline, the text, a newline, three backquotes. The info string of a fence around JSON
  is \<^verbatim>\<open>json\<close>, or empty.
\<close>

definition fenced :: "pystr \<Rightarrow> pystr \<Rightarrow> pystr" where
  "fenced info body = [96, 96, 96] @ info @ [10] @ body @ [10, 96, 96, 96]"

definition json_fence_info :: "pystr \<Rightarrow> bool" where
  "json_fence_info info \<longleftrightarrow> info = ascii ''json'' \<or> info = []"


text \<open>The four required keys present and \<^verbatim>\<open>options\<close> an array of four values.\<close>

definition well_formed_quiz :: "(pystr \<times> json) list \<Rightarrow> bool" where
  "well_formed_quiz kvs \<longleftrightarrow>
     list_all (\<lambda>k. map_of kvs k \<noteq> None) required_keys \<and>
     (case map_of kvs (ascii ''options'') of Some (JArray xs) \<Rightarrow> length xs = 4 | _ \<Rightarrow> False)"

text \<open>The response of the specification's third scenario, and the value it parses to.\<close>

definition scenario_json :: pystr where
  \<open>scenario_json =
     ascii ''{"question":"Q","options":["A","B","C","D"],"answer":"B","explanation":"E"}''\<close>

definition scenario_quiz :: json where
  "scenario_quiz =
     JObject
       [(ascii ''question'', JString (ascii ''Q'')),
        (ascii ''options'',
         JArray [JString (ascii ''A''), JString (ascii ''B''), JString (ascii ''C''),
                 JString (ascii ''D'')]),
        (ascii ''answer'', JString (ascii ''B'')),
        (ascii ''explanation'', JString (ascii ''E''))]"

text \<open>Two rejected responses: one without three of the keys, one with three options.\<close>

definition incomplete_json :: pystr where
  \<open>incomplete_json = ascii ''{"question":"Q"}''\<close>

definition incomplete_quiz :: json where
  "incomplete_quiz = JObject [(ascii ''question'', JString (ascii ''Q''))]"

definition three_options_json :: pystr where
  \<open>three_options_json =
     ascii ''{"question":"Q","options":["A","B","C"],"answer":"B","explanation":"E"}''\<close>

definition three_options_quiz :: json where
  "three_options_quiz =
     JObject
       [(ascii ''question'', JString (ascii ''Q'')),
        (ascii ''options'',
         JArray [JString (ascii ''A''), JString (ascii ''B''), JString (ascii ''C'')]),
        (ascii ''answer'', JString (ascii ''B'')),
        (ascii ''explanation'', JString (ascii ''E''))]"

text \<open>A JSON parser that knows these three texts.\<close>

definition demo_loads :: "pystr \<Rightarrow> json option" where
  "demo_loads s =
     (if s = scenario_json then Some scenario_quiz
      else if s = incomplete_json then Some incomplete_quiz
      else if s = three_options_json then Some three_options_quiz
      else None)"

text \<open>
  A session: the provider finds one page for every query, no page can be fetched, and the
  generative service answers the quiz prompt of the first history item only.
\<close>

definition one_result :: "pystr \<Rightarrow> nat \<Rightarrow> exn + search_result list" where
  "one_result q n = Inr [\<lparr>title = ascii ''A'', href = demo_url\<rparr>]"

definition item_first :: history_item where
  "item_first =
     \<lparr>query = ascii ''first'', summary = all_failed_message,
      sources = [(ascii ''A'', demo_url)]\<rparr>"

definition item_second :: history_item where
  "item_second =
     \<lparr>query = ascii ''second'', summary = all_failed_message,
      sources = [(ascii ''A'', demo_url)]\<rparr>"

definition first_only_service :: "pystr \<Rightarrow> pystr \<Rightarrow> pystr + pystr" where
  "first_only_service key prompt =
     (if prompt = quiz_prompt item_first then Inr (fenced (ascii ''json'') scenario_json)
      else Inl (ascii ''no answer''))"


definition signed_in :: session_state where
  "signed_in = initial_state\<lparr>api_key := demo_key\<rparr>"

definition after_first_search :: session_state where
  "after_first_search =
     search_page one_result offline first_only_service (ascii ''first'') signed_in"

definition after_quiz :: session_state where
  "after_quiz = quiz_button first_only_service demo_loads 0 after_first_search"

definition after_second_search :: session_state where
  "after_second_search =
     search_page one_result offline first_only_service (ascii ''second'') after_quiz"

chapter \<open>Properties\<close>

section \<open>Strings and trees\<close>

lemma isspace_32: "isspace 32"
  by (simp add: isspace_def)

lemma isspace_10: "isspace 10"
  by (simp add: isspace_def)

lemma strip_replicate: "\<not> isspace c \<Longrightarrow> strip (replicate n c) = replicate n c"
  by (cases n) (simp_all add: strip_def dropWhile_replicate replicate_append_same dropWhile_append3)

lemma strip_padded:
  assumes "\<not> isspace c"
  shows "strip (32 # replicate (Suc n) c @ [32]) = replicate (Suc n) c"
proof -
  have "dropWhile isspace (32 # replicate (Suc n) c @ [32]) = replicate (Suc n) c @ [32]"
    using assms by (simp add: isspace_32)
  moreover have "rev (replicate (Suc n) c @ [32]) = 32 # replicate (Suc n) c"
    by (simp add: replicate_append_same)
  moreover have "dropWhile isspace (32 # replicate (Suc n) c) = replicate (Suc n) c"
    using assms by (simp add: isspace_32)
  ultimately show ?thesis
    by (simp only: strip_def rev_replicate)
qed

lemma dropWhile_id: "xs = [] \<or> \<not> P (hd xs) \<Longrightarrow> dropWhile P xs = xs"
  by (cases xs) auto

lemma strip_core:
  assumes "b \<noteq> []" "\<not> isspace (hd b)" "\<not> isspace (last b)"
  shows "strip b = b"
proof -
  have "dropWhile isspace b = b"
    using assms by (simp add: dropWhile_id)
  moreover have "dropWhile isspace (rev b) = rev b"
    using assms by (intro dropWhile_id) (simp add: hd_rev)
  ultimately show ?thesis by (simp add: strip_def)
qed

lemma strip_outer_whitespace:
  assumes "\<forall>c\<in>set ws1. isspace c" "\<forall>c\<in>set ws2. isspace c"
  shows "strip (ws1 @ t @ ws2) = strip t"
proof -
  have 1: "dropWhile isspace (ws1 @ t @ ws2) = dropWhile isspace (t @ ws2)"
    using assms(1) by (simp add: dropWhile_append2)
  show ?thesis
  proof (cases "\<forall>c\<in>set t. isspace c")
    case True
    then have a: "dropWhile isspace (t @ ws2) = []" and b: "dropWhile isspace t = []"
      using assms(2) by (simp_all add: dropWhile_eq_Nil_conv)
    show ?thesis unfolding strip_def 1 a b by simp
  next
    case False
    then obtain x where "x \<in> set t" "\<not> isspace x" by blast
    then have "dropWhile isspace (t @ ws2) = dropWhile isspace t @ ws2"
      by (simp add: dropWhile_append1)
    moreover have "dropWhile isspace (rev ws2 @ ys) = dropWhile isspace ys" for ys
      using assms(2) by (intro dropWhile_append2) simp
    ultimately show ?thesis by (simp add: strip_def 1)
  qed
qed



lemma not_isspace_letters: "\<not> isspace 97" "\<not> isspace 98" "\<not> isspace 99" "\<not> isspace 100"
  by (simp_all add: isspace_def)

lemma comprehension_filter_map: "[f p. p \<leftarrow> ps, P (f p)] = filter P (map f ps)"
  by (induction ps) simp_all

lemma strings_find_all_self:
  "t' \<in> set (find_all_self name t) \<Longrightarrow> set (strings t') \<subseteq> set (strings t)"
proof (induction t)
  case (Tag n contents)
  then show ?case by (fastforce split: if_splits)
qed simp_all

lemma strings_find_all:
  "t' \<in> set (find_all name t) \<Longrightarrow> set (strings t') \<subseteq> set (strings t)"
proof (cases t)
  case (Tag n contents)
  assume "t' \<in> set (find_all name t)"
  with Tag show ?thesis by (fastforce dest: strings_find_all_self)
qed simp_all

lemma get_text_no_text:
  "\<forall>s\<in>set (strings t). strip s = [] \<Longrightarrow> get_text separator True t = []"
  by (simp add: get_text_def filter_empty_conv)

lemma paragraph_content_no_text:
  assumes "\<forall>s\<in>set (strings region). strip s = []"
  shows "paragraph_content region = []"
proof -
  have "get_text [] True p = []" if "p \<in> set (find_all ''p'' region)" for p
    using assms strings_find_all [OF that] by (intro get_text_no_text) blast
  then have "filter (\<lambda>t. 50 < length t) (map (get_text [] True) (find_all ''p'' region)) = []"
    by (simp add: filter_empty_conv)
  then show ?thesis
    by (simp add: paragraph_content_def Let_def
        comprehension_filter_map [where f = "get_text [] True" and P = "\<lambda>t. 50 < length t"])
qed

section \<open>Content extractor\<close>

lemma scrape_content_Response:
  "requests_get url = Response soup \<Longrightarrow> main_content soup = Some region \<Longrightarrow>
   scrape_content requests_get url =
     take 4000 (if length (paragraph_content region) < 200 then get_text [10] True region
                else paragraph_content region)"
  by (simp add: scrape_content_def scrape_content_try_def Let_def)

lemma scrape_content_no_region:
  "requests_get url = Response soup \<Longrightarrow> main_content soup = None \<Longrightarrow>
   scrape_content requests_get url = unexpected_error_message @ url"
  by (simp add: scrape_content_def scrape_content_try_def)

lemma main_content_page_without_body: "main_content page_without_body = None"
  by (simp add: page_without_body_def main_content_def soup_find_def)

lemma main_content_page_with_empty_body:
  "main_content page_with_empty_body = Some (Tag ''body'' [NavigableString [32, 10]])"
  by (simp add: page_with_empty_body_def main_content_def soup_find_def)

lemma main_content_sparse_page: "main_content sparse_page = Some sparse_body"
  by (simp add: sparse_page_def sparse_body_def main_content_def soup_find_def)

lemma paragraph_content_sparse_body: "paragraph_content sparse_body = replicate 60 97"
  by (simp add: sparse_body_def paragraph_content_def get_text_def strip_replicate isspace_def)

lemma get_text_sparse_body: "get_text [10] True sparse_body = [104, 105, 10] @ replicate 60 97"
  by (simp add: sparse_body_def get_text_def strip_replicate isspace_def strip_def)

lemma main_content_rich_page: "main_content rich_page = Some rich_main"
  by (simp add: rich_page_def rich_main_def main_content_def soup_find_def)

lemma paragraph_content_rich_main:
  "paragraph_content rich_main = replicate 120 97 @ [10] @ replicate 120 98"
  using strip_padded [of 97 119]
  by (simp add: rich_main_def paragraph_content_def get_text_def strip_replicate isspace_def)

lemma scrape_content_rich_page:
  "scrape_content (\<lambda>u. Response rich_page) url = replicate 120 97 @ [10] @ replicate 120 98"
  by (simp add: scrape_content_Response [OF refl main_content_rich_page]
      paragraph_content_rich_main)

lemma rich_text_not_failed: "\<not> looks_failed (replicate 120 97 @ [10] @ replicate 120 98)"
  by (simp add: looks_failed_def startswith_def fetch_failed_prefix_def
      unexpected_error_prefix_def)

lemma fetch_status_300: "fetch (Reply 300 soup) = Response soup"
  by (simp add: fetch_def raise_for_status_def)

text \<open>
  C4, as stated, fails: a response with status 300 is not a 2xx response, yet
  \<^verbatim>\<open>raise_for_status\<close> does not raise for it; its body is parsed and the extracted text is
  returned, not a failure message.
\<close>

theorem scrape_content_status_300_counterexample:
  "\<not> (200 \<le> (300::nat) \<and> (300::nat) < 300) \<and>
   scrape_content (\<lambda>u. fetch (Reply 300 rich_page)) demo_url =
     replicate 120 97 @ [10] @ replicate 120 98 \<and>
   \<not> looks_failed (scrape_content (\<lambda>u. fetch (Reply 300 rich_page)) demo_url)"
proof -
  have res: "scrape_content (\<lambda>u. fetch (Reply 300 rich_page)) demo_url =
              replicate 120 97 @ [10] @ replicate 120 98"
    by (simp add: fetch_status_300 scrape_content_rich_page)
  show ?thesis unfolding res using rich_text_not_failed by simp
qed

text \<open>
  C4, amended. \<^verbatim>\<open>scrape_content\<close> turns every exception of its \<^verbatim>\<open>try\<close> block into a returned
  message that ends with the URL, so nothing is raised past it. For a connection error and
  for a response with a status from 400 to 599 the result is the "fetching the content
  failed" message followed by that URL; a response with any other status is processed as
  a fetched document.
\<close>

theorem scrape_content_http_failure_names_url:
  "((http url = NoReply \<or>
     (\<exists>status soup. http url = Reply status soup \<and> 400 \<le> status \<and> status < 600)) \<longrightarrow>
      scrape_content (\<lambda>u. fetch (http u)) url = fetch_failed_message @ url) \<and>
   (\<forall>status soup. http url = Reply status soup \<longrightarrow> \<not> (400 \<le> status \<and> status < 600) \<longrightarrow>
      scrape_content (\<lambda>u. fetch (http u)) url = scrape_content (\<lambda>u. Response soup) url) \<and>
   (\<forall>e. scrape_content_try (requests_get url) = Inl e \<longrightarrow>
      scrape_content requests_get url = fetch_failed_message @ url \<or>
      scrape_content requests_get url = unexpected_error_message @ url)"
  by (auto simp: scrape_content_def scrape_content_try_def fetch_def raise_for_status_def
      split: exn.splits)

theorem scrape_content_http_failure_names_url_witness:
  "scrape_content (\<lambda>u. fetch (Reply 404 rich_page)) demo_url = fetch_failed_message @ demo_url \<and>
   scrape_content (\<lambda>u. fetch NoReply) demo_url = fetch_failed_message @ demo_url \<and>
   scrape_content (\<lambda>u. fetch (Reply 200 rich_page)) demo_url =
     replicate 120 97 @ [10] @ replicate 120 98"
  using scrape_content_http_failure_names_url [of "\<lambda>u. Reply 404 rich_page" demo_url]
        scrape_content_http_failure_names_url [of "\<lambda>u. NoReply" demo_url]
        scrape_content_http_failure_names_url [of "\<lambda>u. Reply 200 rich_page" demo_url]
  by (simp add: scrape_content_rich_page)

text \<open>
  C5. For a fetched document with a content region, \<^verbatim>\<open>scrape_content\<close> returns the text of
  the whole region (strings joined by newlines) when the paragraph text is shorter than
  200 characters, and the paragraph text otherwise, in both cases cut to 4000 characters:
  the fallback depends only on the length of the paragraph text.
\<close>

theorem scrape_content_fallback_below_200:
  "requests_get url = Response soup \<Longrightarrow> main_content soup = Some region \<Longrightarrow>
   (length (paragraph_content region) < 200 \<longrightarrow>
      scrape_content requests_get url = take 4000 (get_text [10] True region)) \<and>
   (\<not> length (paragraph_content region) < 200 \<longrightarrow>
      scrape_content requests_get url = take 4000 (paragraph_content region))"
  by (simp add: scrape_content_Response)

theorem scrape_content_fallback_below_200_witness:
  "length (paragraph_content sparse_body) < 200 \<and>
   scrape_content (\<lambda>u. Response sparse_page) demo_url = [104, 105, 10] @ replicate 60 97 \<and>
   \<not> length (paragraph_content rich_main) < 200 \<and>
   scrape_content (\<lambda>u. Response rich_page) demo_url = paragraph_content rich_main"
  using scrape_content_fallback_below_200
          [of "\<lambda>u. Response sparse_page" demo_url sparse_page sparse_body,
           OF refl main_content_sparse_page]
        scrape_content_fallback_below_200
          [of "\<lambda>u. Response rich_page" demo_url rich_page rich_main,
           OF refl main_content_rich_page]
  by (simp add: paragraph_content_sparse_body get_text_sparse_body paragraph_content_rich_main)

lemma soup_find_rich_page: "soup_find ''main'' rich_page = Some rich_main"
  by (simp add: rich_page_def rich_main_def soup_find_def)

lemma strip_inline_fragments:
  "strip (replicate 25 97 @ [32]) = replicate 25 97"
  "strip (32 # replicate 25 98) = replicate 25 98"
proof -
  show "strip (replicate 25 97 @ [32]) = replicate 25 97"
    using strip_outer_whitespace [of "[]" "[32]" "replicate 25 97"]
    by (simp add: isspace_32 strip_replicate not_isspace_letters)
  show "strip (32 # replicate 25 98) = replicate 25 98"
    using strip_outer_whitespace [of "[32]" "[]" "replicate 25 98"]
    by (simp add: isspace_32 strip_replicate not_isspace_letters)
qed

lemma get_text_inline_paragraph:
  "get_text [] True inline_paragraph = replicate 25 97 @ replicate 25 98"
  by (simp add: inline_paragraph_def get_text_def strip_inline_fragments)

lemma trimmed_text_inline_paragraph:
  "trimmed_text inline_paragraph = replicate 25 97 @ [32, 32] @ replicate 25 98"
proof -
  have "get_text [] False inline_paragraph = replicate 25 97 @ [32, 32] @ replicate 25 98"
    by (simp add: inline_paragraph_def get_text_def)
  moreover have "strip (replicate 25 97 @ [32, 32] @ replicate 25 98) =
                 replicate 25 97 @ [32, 32] @ replicate 25 98"
    by (rule strip_core) (simp_all add: not_isspace_letters hd_append)
  ultimately show ?thesis by (simp add: trimmed_text_def)
qed

lemma main_content_inline_page: "main_content inline_page = Some inline_main"
  by (simp add: inline_page_def inline_main_def main_content_def soup_find_def)

lemma paragraph_content_inline_main:
  "paragraph_content inline_main = replicate 120 99 @ [10] @ replicate 120 100"
proof -
  have "get_text [] True (Tag ''p'' [NavigableString (replicate 120 c)]) = replicate 120 c"
    if "\<not> isspace c" for c
    using that by (simp add: get_text_def strip_replicate)
  then show ?thesis
    using get_text_inline_paragraph
    by (simp add: paragraph_content_def inline_main_def inline_paragraph_def
        not_isspace_letters)
qed

text \<open>
  C6, as stated, fails: the trimmed text of the paragraph with inline markup has 52
  characters, but the paragraph is left out. \<^verbatim>\<open>get_text(strip=True)\<close> trims each text
  fragment of a paragraph and glues the fragments together, which here leaves 50
  characters.
\<close>

theorem scrape_content_inline_markup_counterexample:
  "50 < length (trimmed_text inline_paragraph) \<and>
   scrape_content (\<lambda>u. Response inline_page) demo_url =
     replicate 120 99 @ [10] @ replicate 120 100"
  by (simp add: trimmed_text_inline_paragraph
      scrape_content_Response [OF refl main_content_inline_page]
      paragraph_content_inline_main)

lemma get_text_single_string:
  "get_text [] True (Tag n [NavigableString s]) = trimmed_text (Tag n [NavigableString s])"
  by (simp add: get_text_def trimmed_text_def)

text \<open>
  C6, amended. The content region is the first \<^verbatim>\<open>main\<close> element when there is one, else the
  first \<^verbatim>\<open>article\<close> element when there is one, else the \<^verbatim>\<open>body\<close>. The glued text of a
  paragraph is its text fragments, each trimmed, the empty ones left out, joined without a
  separator; for a paragraph that holds a single fragment it is the trimmed text. The
  paragraph text joins by newlines the glued texts of exactly those paragraphs of the
  region whose glued text is longer than 50 characters, and it is what \<^verbatim>\<open>scrape_content\<close>
  returns (cut to 4000 characters) when it has at least 200 characters.
\<close>

theorem scrape_content_region_and_paragraphs:
  "(\<forall>m. soup_find ''main'' soup = Some m \<longrightarrow> main_content soup = Some m) \<and>
   (\<forall>a. soup_find ''main'' soup = None \<longrightarrow> soup_find ''article'' soup = Some a \<longrightarrow>
        main_content soup = Some a) \<and>
   (soup_find ''main'' soup = None \<longrightarrow> soup_find ''article'' soup = None \<longrightarrow>
        main_content soup = soup_find ''body'' soup) \<and>
   paragraph_content region =
     join [10] (filter (\<lambda>t. 50 < length t) (map (get_text [] True) (find_all ''p'' region))) \<and>
   (\<forall>p. get_text [] True p = join [] (filter (\<lambda>s. s \<noteq> []) (map strip (strings p)))) \<and>
   (\<forall>n s. get_text [] True (Tag n [NavigableString s]) =
          trimmed_text (Tag n [NavigableString s])) \<and>
   (requests_get url = Response soup \<longrightarrow> main_content soup = Some region \<longrightarrow>
    200 \<le> length (paragraph_content region) \<longrightarrow>
      scrape_content requests_get url = take 4000 (paragraph_content region))"
  by (simp add: main_content_def paragraph_content_def Let_def scrape_content_def
      scrape_content_try_def get_text_single_string
      comprehension_filter_map [where f = "get_text [] True" and P = "\<lambda>t. 50 < length t"])
     (simp add: get_text_def)

theorem scrape_content_region_and_paragraphs_witness:
  "soup_find ''main'' rich_page = Some rich_main \<and>
   main_content rich_page = Some rich_main \<and>
   scrape_content (\<lambda>u. Response rich_page) demo_url = replicate 120 97 @ [10] @ replicate 120 98"
  using scrape_content_region_and_paragraphs
          [of rich_page rich_main "\<lambda>u. Response rich_page" demo_url]
  by (simp add: soup_find_rich_page paragraph_content_rich_main)

text \<open>
  C3, as stated, fails: for a successful response with an empty body the parsed document
  has no \<^verbatim>\<open>main\<close>, \<^verbatim>\<open>article\<close> or \<^verbatim>\<open>body\<close> element, line 34 raises \<^verbatim>\<open>AttributeError\<close>, and the
  handler of line 44 returns the "unexpected error" message, which \<^verbatim>\<open>get_summary\<close> counts
  as a failure.
\<close>

theorem scrape_content_empty_page_counterexample:
  "scrape_content (\<lambda>u. Response page_without_body) demo_url \<noteq> [] \<and>
   looks_failed (scrape_content (\<lambda>u. Response page_without_body) demo_url)"
  by (simp add: scrape_content_no_region [OF refl main_content_page_without_body]
      unexpected_error_message_def looks_failed_def startswith_def unexpected_error_prefix_def)

lemma strip_whitespace_only: "strip [32, 10] = []"
  by (simp add: strip_def isspace_def)

text \<open>
  C3, amended. For a successful response whose document has a content region (a \<^verbatim>\<open>main\<close>,
  \<^verbatim>\<open>article\<close> or \<^verbatim>\<open>body\<close> element) that holds no text but whitespace, \<^verbatim>\<open>scrape_content\<close>
  returns the empty string. Whenever the \<^verbatim>\<open>try\<close> block meets an exception a failure
  message is returned: the "fetching the content failed" message for a
  \<^verbatim>\<open>RequestException\<close>, the "unexpected error" message for any other exception, each
  followed by the URL; otherwise the extracted text is returned.
\<close>

theorem scrape_content_successful_response:
  "(requests_get url = Response soup \<longrightarrow> main_content soup = Some region \<longrightarrow>
      (\<forall>s\<in>set (strings region). strip s = []) \<longrightarrow> scrape_content requests_get url = []) \<and>
   (\<forall>e. scrape_content_try (requests_get url) = Inl e \<longrightarrow>
      scrape_content requests_get url =
        (if e = RequestException then fetch_failed_message else unexpected_error_message) @ url) \<and>
   (\<forall>content. scrape_content_try (requests_get url) = Inr content \<longrightarrow>
      scrape_content requests_get url = content)"
proof (intro conjI impI allI)
  assume "requests_get url = Response soup" "main_content soup = Some region"
    and "\<forall>s\<in>set (strings region). strip s = []"
  then show "scrape_content requests_get url = []"
    by (simp add: scrape_content_Response paragraph_content_no_text get_text_no_text)
next
  fix e
  assume "scrape_content_try (requests_get url) = Inl e"
  then show "scrape_content requests_get url =
        (if e = RequestException then fetch_failed_message else unexpected_error_message) @ url"
    by (cases e) (simp_all add: scrape_content_def)
next
  fix content
  assume "scrape_content_try (requests_get url) = Inr content"
  then show "scrape_content requests_get url = content"
    by (simp add: scrape_content_def)
qed

theorem scrape_content_successful_response_witness:
  "scrape_content (\<lambda>u. Response page_with_empty_body) demo_url = [] \<and>
   scrape_content (\<lambda>u. Raised (OtherException (ascii ''parser''))) demo_url =
     unexpected_error_message @ demo_url"
  using scrape_content_successful_response
          [of "\<lambda>u. Response page_with_empty_body" demo_url page_with_empty_body
              "Tag ''body'' [NavigableString [32, 10]]"]
        scrape_content_successful_response
          [of "\<lambda>u. Raised (OtherException (ascii ''parser''))" demo_url]
  by (simp add: main_content_page_with_empty_body strip_whitespace_only scrape_content_try_def)

section \<open>Research pipeline\<close>

lemma fold_gather_contents:
  "scraped_contents (fold (gather_step net) irs g) =
     scraped_contents g @ concat (map (blocks_of net) irs)"
  by (induction irs arbitrary: g)
     (auto simp: gather_step_def blocks_of_def looks_failed_def Let_def split: prod.splits)

lemma fold_gather_calls:
  "calls (fold (gather_step net) irs g) = calls g @ map (\<lambda>ir. HttpGet (href (snd ir))) irs"
  by (induction irs arbitrary: g) (auto simp: gather_step_def Let_def split: prod.splits)

lemma map_snd_enumerate_fun: "map (\<lambda>ir. f (snd ir)) (enumerate n xs) = map f xs"
  by (induction xs arbitrary: n) simp_all

lemma nth_in_enumerate: "i < length rs \<Longrightarrow> (i, rs ! i) \<in> set (enumerate 0 rs)"
  by (simp add: in_set_enumerate_eq)

lemma gather_contents:
  "scraped_contents (gather net rs) = concat (map (blocks_of net) (enumerate 0 rs))"
  by (simp add: gather_def fold_gather_contents)

lemma gather_calls: "calls (gather net rs) = map (\<lambda>r. HttpGet (href r)) rs"
  by (simp add: gather_def fold_gather_calls
      map_snd_enumerate_fun [where f = "\<lambda>r. HttpGet (href r)"])

lemma failure_messages_look_failed:
  "looks_failed (fetch_failed_message @ url)" "looks_failed (unexpected_error_message @ url)"
  by (simp_all add: looks_failed_def startswith_def fetch_failed_message_def
      fetch_failed_prefix_def unexpected_error_message_def unexpected_error_prefix_def)

lemma raised_looks_failed:
  "scrape_content_try (requests_get url) = Inl e \<Longrightarrow> looks_failed (scrape_content requests_get url)"
  by (cases e) (simp_all add: scrape_content_def failure_messages_look_failed)

lemma not_failed_is_content:
  "\<not> looks_failed (scrape_content requests_get url) \<Longrightarrow>
   \<exists>c. scrape_content_try (requests_get url) = Inr c"
  using raised_looks_failed by (cases "scrape_content_try (requests_get url)") auto

lemma contents_empty_iff:
  "scraped_contents (gather net rs) = [] \<longleftrightarrow>
     (\<forall>i<length rs. looks_failed (scrape_content (net i) (href (rs ! i))))"
proof -
  have "scraped_contents (gather net rs) = [] \<longleftrightarrow>
        (\<forall>ir\<in>set (enumerate 0 rs). blocks_of net ir = [])"
    by (simp add: gather_contents)
  also have "\<dots> \<longleftrightarrow>
        (\<forall>ir\<in>set (enumerate 0 rs). looks_failed (scrape_content (net (fst ir)) (href (snd ir))))"
    by (simp add: blocks_of_def Let_def)
  also have "\<dots> \<longleftrightarrow> (\<forall>i<length rs. looks_failed (scrape_content (net i) (href (rs ! i))))"
  proof
    assume h: "\<forall>ir\<in>set (enumerate 0 rs). looks_failed (scrape_content (net (fst ir)) (href (snd ir)))"
    show "\<forall>i<length rs. looks_failed (scrape_content (net i) (href (rs ! i)))"
    proof (intro allI impI)
      fix i assume "i < length rs"
      from h nth_in_enumerate [OF this] show "looks_failed (scrape_content (net i) (href (rs ! i)))"
        by fastforce
    qed
  next
    assume "\<forall>i<length rs. looks_failed (scrape_content (net i) (href (rs ! i)))"
    then show "\<forall>ir\<in>set (enumerate 0 rs). looks_failed (scrape_content (net (fst ir)) (href (snd ir)))"
      by (auto simp: in_set_enumerate_eq)
  qed
  finally show ?thesis .
qed

lemma scrape_content_offline:
  "scrape_content (offline i) url = fetch_failed_message @ url"
  by (simp add: scrape_content_def scrape_content_try_def offline_def)

lemma scrape_content_sparse_page:
  "scrape_content (\<lambda>u. Response sparse_page) url = [104, 105, 10] @ replicate 60 97"
  by (simp add: scrape_content_Response [OF refl main_content_sparse_page]
      paragraph_content_sparse_body get_text_sparse_body)

lemma sparse_text_not_failed: "\<not> looks_failed ([104, 105, 10] @ replicate 60 97)"
  by (simp add: looks_failed_def startswith_def fetch_failed_prefix_def
      unexpected_error_prefix_def)

lemma enumerate_demo_results:
  "enumerate 0 demo_results =
     [(0, \<lparr>title = ascii ''A'', href = demo_url\<rparr>),
      (1, \<lparr>title = ascii ''B'', href = ascii ''http://b''\<rparr>)]"
  by (simp add: demo_results_def)

lemma gather_second_only:
  "scraped_contents (gather second_only demo_results) =
     [source_block 1 \<lparr>title = ascii ''B'', href = ascii ''http://b''\<rparr>
        ([104, 105, 10] @ replicate 60 97)]"
proof -
  have "second_only 0 = (\<lambda>u. Raised RequestException)" "second_only 1 = (\<lambda>u. Response sparse_page)"
    by (simp_all add: second_only_def fun_eq_iff)
  moreover have "scrape_content (\<lambda>u. Raised RequestException) url = fetch_failed_message @ url" for url
    by (simp add: scrape_content_def scrape_content_try_def)
  ultimately show ?thesis
    by (simp add: gather_contents enumerate_demo_results blocks_of_def Let_def
        scrape_content_sparse_page sparse_text_not_failed failure_messages_look_failed
        del: append.simps)
qed

lemma calls_demo_results:
  "calls (gather net demo_results) = [HttpGet demo_url, HttpGet (ascii ''http://b'')]"
  by (simp add: gather_calls demo_results_def)

text \<open>
  C1. When every extraction of a run fails (each \<^verbatim>\<open>scrape_content\<close> call meets an
  exception), \<^verbatim>\<open>get_summary\<close> returns the "no content could be fetched" text and the run's
  calls are the HTTP fetches alone, none to the generative service. In every run, a call
  to the generative service implies that at least one extraction succeeded.
\<close>

theorem get_summary_all_failed_no_generation:
  "((\<forall>i<length rs. \<exists>e. scrape_content_try (net i (href (rs ! i))) = Inl e) \<longrightarrow>
      get_summary gen net key q rs = (all_failed_message, map (\<lambda>r. HttpGet (href r)) rs)) \<and>
   (\<forall>prompt. GenerateContent prompt \<in> set (snd (get_summary gen net key q rs)) \<longrightarrow>
      (\<exists>i<length rs. \<exists>c. scrape_content_try (net i (href (rs ! i))) = Inr c))"
proof (intro conjI impI allI)
  assume "\<forall>i<length rs. \<exists>e. scrape_content_try (net i (href (rs ! i))) = Inl e"
  then have "scraped_contents (gather net rs) = []"
    unfolding contents_empty_iff using raised_looks_failed by blast
  then show "get_summary gen net key q rs = (all_failed_message, map (\<lambda>r. HttpGet (href r)) rs)"
    by (simp add: get_summary_def gather_calls)
next
  fix prompt
  assume "GenerateContent prompt \<in> set (snd (get_summary gen net key q rs))"
  then have "scraped_contents (gather net rs) \<noteq> []"
    by (auto simp: get_summary_def gather_calls Let_def split: if_splits)
  then obtain i where "i < length rs" "\<not> looks_failed (scrape_content (net i) (href (rs ! i)))"
    unfolding contents_empty_iff by blast
  then show "\<exists>i<length rs. \<exists>c. scrape_content_try (net i (href (rs ! i))) = Inr c"
    using not_failed_is_content by blast
qed

theorem get_summary_all_failed_no_generation_witness:
  "get_summary quota_exceeded offline demo_key demo_query demo_results =
     (all_failed_message, [HttpGet demo_url, HttpGet (ascii ''http://b'')]) \<and>
   (\<exists>prompt. GenerateContent prompt \<in>
       set (snd (get_summary quota_exceeded second_only demo_key demo_query demo_results))) \<and>
   (\<exists>i<length demo_results. \<exists>c.
       scrape_content_try (second_only i (href (demo_results ! i))) = Inr c)"
proof -
  have called: "GenerateContent (summary_prompt demo_query
            (scraped_contents (gather second_only demo_results)))
        \<in> set (snd (get_summary quota_exceeded second_only demo_key demo_query demo_results))"
    by (simp add: get_summary_def Let_def gather_second_only)
  have failed: "\<forall>i<length demo_results. \<exists>e. scrape_content_try (offline i (href (demo_results ! i))) = Inl e"
    by (simp add: scrape_content_try_def offline_def)
  from get_summary_all_failed_no_generation [of demo_results offline quota_exceeded demo_key demo_query] failed
  have "get_summary quota_exceeded offline demo_key demo_query demo_results =
     (all_failed_message, [HttpGet demo_url, HttpGet (ascii ''http://b'')])"
    by (simp add: demo_results_def)
  moreover from get_summary_all_failed_no_generation
      [of demo_results second_only quota_exceeded demo_key demo_query] called
  have "\<exists>i<length demo_results. \<exists>c.
       scrape_content_try (second_only i (href (demo_results ! i))) = Inr c"
    by blast
  ultimately show ?thesis using called by blast
qed

text \<open>
  C9. When the call to the generative service fails with a message, \<^verbatim>\<open>get_summary\<close>
  returns, as its summary, the "error while generating the summary" text followed by that
  message: the failure is a returned value.
\<close>

theorem get_summary_generation_error_is_summary:
  "GenerateContent prompt \<in> set (snd (get_summary gen net key q rs)) \<Longrightarrow>
   gen key prompt = Inl msg \<Longrightarrow>
   fst (get_summary gen net key q rs) = generation_error_message @ msg"
  by (auto simp: get_summary_def gather_calls Let_def split: if_splits)

theorem get_summary_generation_error_is_summary_witness:
  "fst (get_summary quota_exceeded second_only demo_key demo_query demo_results) =
     generation_error_message @ ascii ''quota''"
proof -
  have "GenerateContent (summary_prompt demo_query
            (scraped_contents (gather second_only demo_results)))
        \<in> set (snd (get_summary quota_exceeded second_only demo_key demo_query demo_results))"
    by (simp add: get_summary_def Let_def gather_second_only)
  then show ?thesis
    by (rule get_summary_generation_error_is_summary) (simp add: quota_exceeded_def)
qed

text \<open>
  C10. \<^verbatim>\<open>get_summary\<close> keeps the block of a source exactly when the returned text starts
  with neither failure prefix. So a source that was fetched and extracted without any
  exception, but whose text starts with one of the prefixes, is left out: the run returns
  what it would return had that fetch raised.
\<close>

theorem get_summary_prefix_classification:
  "scraped_contents (gather net rs) = concat (map (blocks_of net) (enumerate 0 rs)) \<and>
   (i < length rs \<longrightarrow> scrape_content_try (net i (href (rs ! i))) = Inr text \<longrightarrow>
    looks_failed text \<longrightarrow>
      get_summary gen net key q rs =
      get_summary gen (net(i := \<lambda>url. Raised RequestException)) key q rs)"
proof (intro conjI impI)
  show "scraped_contents (gather net rs) = concat (map (blocks_of net) (enumerate 0 rs))"
    by (rule gather_contents)
next
  assume i: "i < length rs"
    and ok: "scrape_content_try (net i (href (rs ! i))) = Inr text"
    and bad: "looks_failed text"
  let ?net' = "net(i := \<lambda>url. Raised RequestException)"
  have "blocks_of net ir = blocks_of ?net' ir" if "ir \<in> set (enumerate 0 rs)" for ir
  proof (cases "fst ir = i")
    case True
    have "snd ir = rs ! i" using that True by (auto simp: in_set_enumerate_eq)
    with True ok bad show ?thesis
      by (simp add: blocks_of_def Let_def scrape_content_def scrape_content_try_def
          failure_messages_look_failed)
  next
    case False
    then show ?thesis by (simp add: blocks_of_def)
  qed
  then have "scraped_contents (gather net rs) = scraped_contents (gather ?net' rs)"
    unfolding gather_contents by (metis (no_types, lifting) map_eq_conv)
  then show "get_summary gen net key q rs = get_summary gen ?net' key q rs"
    by (simp add: get_summary_def gather_calls Let_def)
qed

lemma main_content_misleading_page:
  "main_content misleading_page = Some (Tag ''body'' [NavigableString unexpected_error_prefix])"
  by (simp add: misleading_page_def main_content_def soup_find_def)

lemma strip_unexpected_error_prefix: "strip unexpected_error_prefix = unexpected_error_prefix"
  by (simp add: strip_def unexpected_error_prefix_def isspace_def)

lemma scrape_content_try_misleading:
  "scrape_content_try (Response misleading_page) = Inr unexpected_error_prefix"
  by (simp add: scrape_content_try_def main_content_misleading_page paragraph_content_def
      get_text_def strip_unexpected_error_prefix)
     (simp add: unexpected_error_prefix_def)

lemma looks_failed_prefix: "looks_failed unexpected_error_prefix"
  by (simp add: looks_failed_def startswith_def)

theorem get_summary_prefix_classification_witness:
  "scrape_content_try (misleading 0 demo_url) = Inr unexpected_error_prefix \<and>
   get_summary quota_exceeded misleading demo_key demo_query [\<lparr>title = ascii ''A'', href = demo_url\<rparr>] =
     (all_failed_message, [HttpGet demo_url])"
proof -
  let ?rs = "[\<lparr>title = ascii ''A'', href = demo_url\<rparr>]"
  have ok: "scrape_content_try (misleading 0 (href (?rs ! 0))) = Inr unexpected_error_prefix"
    by (simp add: misleading_def scrape_content_try_misleading)
  have "get_summary quota_exceeded misleading demo_key demo_query ?rs =
        get_summary quota_exceeded (misleading(0 := \<lambda>url. Raised RequestException)) demo_key demo_query ?rs"
    using get_summary_prefix_classification
            [of misleading ?rs 0 unexpected_error_prefix quota_exceeded demo_key demo_query] ok
    by (simp add: looks_failed_prefix)
  also have "\<dots> = (all_failed_message, [HttpGet demo_url])"
    by (simp add: get_summary_def Let_def gather_calls gather_contents blocks_of_def
        scrape_content_def scrape_content_try_def failure_messages_look_failed)
  finally show ?thesis using ok by simp
qed

section \<open>Quiz generator\<close>

lemma cleaned_response_fenced:
  assumes "json_fence_info info"
  shows "cleaned_response (fenced info t) = strip t"
proof -
  let ?w = "[96, 96, 96] @ info @ [10] @ t @ [10, 96, 96, 96]"
  have info: "\<forall>c\<in>set ([96, 96, 96] @ info). c \<in> set [96, 96, 96, 106, 115, 111, 110]"
    using assms by (auto simp: json_fence_info_def ascii_def)
  have "\<not> isspace 96" by (simp add: isspace_def)
  then have "strip ?w = ?w"
    by (intro strip_core) simp_all
  moreover have "lstrip [96, 96, 96, 106, 115, 111, 110] ?w = [10] @ t @ [10, 96, 96, 96]"
  proof -
    have "dropWhile (\<lambda>c. c \<in> set [96, 96, 96, 106, 115, 111, 110])
            (([96, 96, 96] @ info) @ [10] @ t @ [10, 96, 96, 96]) =
          dropWhile (\<lambda>c. c \<in> set [96, 96, 96, 106, 115, 111, 110])
            ([10] @ t @ [10, 96, 96, 96])"
      using info by (intro dropWhile_append2) blast
    then show ?thesis by (simp add: lstrip_def)
  qed
  moreover have "rstrip [96, 96, 96] ([10] @ t @ [10, 96, 96, 96]) = [10] @ t @ [10]"
    by (simp add: rstrip_def)
  moreover have "strip ([10] @ t @ [10]) = strip t"
    by (rule strip_outer_whitespace) (simp_all add: isspace_10)
  ultimately show ?thesis
    by (simp only: cleaned_response_def fenced_def)
qed


lemma all_in_object:
  "all_in ks (JObject kvs) = Inr (list_all (\<lambda>k. map_of kvs k \<noteq> None) ks)"
  by (induction ks) (simp_all add: py_in_def)

lemma generate_quiz_well_formed:
  assumes "gen key (quiz_prompt item) = Inr text"
    and "json_loads (cleaned_response text) = Some (JObject kvs)"
    and "well_formed_quiz kvs"
  shows "generate_quiz gen json_loads key item = Some (JObject kvs)"
  using assms
  by (auto simp: generate_quiz_def generate_quiz_try_def all_in_object well_formed_quiz_def
      py_getitem_def py_len_def split: option.splits json.splits)

lemma strip_scenario_json: "strip scenario_json = scenario_json"
  by (rule strip_core) (simp_all add: scenario_json_def ascii_def isspace_def)


lemma well_formed_scenario_quiz:
  "well_formed_quiz
     [(ascii ''question'', JString (ascii ''Q'')),
      (ascii ''options'',
       JArray [JString (ascii ''A''), JString (ascii ''B''), JString (ascii ''C''),
               JString (ascii ''D'')]),
      (ascii ''answer'', JString (ascii ''B'')),
      (ascii ''explanation'', JString (ascii ''E''))]"
  by (simp add: well_formed_quiz_def required_keys_def ascii_def)







lemma json_fence_info_json: "json_fence_info (ascii ''json'')"
  by (simp add: json_fence_info_def)


lemma after_first_search_eq:
  "after_first_search =
     \<lparr>search_history = [item_first], quizzes = Map.empty, api_key = demo_key\<rparr>"
  by (simp add: after_first_search_def search_page_def signed_in_def initial_state_def
      search_web_def one_result_def demo_key_def ascii_def Let_def item_first_def
      get_summary_def gather_contents blocks_of_def scrape_content_offline
      failure_messages_look_failed)

lemma truthy_scenario_quiz: "truthy scenario_quiz"
  by (simp add: truthy_def scenario_quiz_def)










section \<open>Session state\<close>

lemma search_page_inserts_in_front:
  assumes "api_key st \<noteq> []" "q \<noteq> []" "search_web ddgs q \<noteq> []"
  shows "\<exists>item. query item = q \<and>
           search_history (search_page ddgs net gen q st) = item # search_history st \<and>
           quizzes (search_page ddgs net gen q st) = quizzes st"
  using assms by (simp add: search_page_def Let_def)








lemma quiz_prompt_second_differs: "quiz_prompt item_second \<noteq> quiz_prompt item_first"
  by (simp add: quiz_prompt_def item_second_def item_first_def ascii_def)

lemma generate_quiz_item_first:
  "generate_quiz first_only_service demo_loads demo_key item_first = Some scenario_quiz"
  using generate_quiz_well_formed
          [of first_only_service demo_key item_first "fenced (ascii ''json'') scenario_json" demo_loads,
           OF _ _ well_formed_scenario_quiz]
  by (simp add: first_only_service_def cleaned_response_fenced json_fence_info_json
      strip_scenario_json
      demo_loads_def scenario_quiz_def)

lemma generate_quiz_item_second:
  "generate_quiz first_only_service demo_loads demo_key item_second = None"
  by (simp add: generate_quiz_def generate_quiz_try_def first_only_service_def
      quiz_prompt_second_differs)

lemma after_quiz_eq:
  "after_quiz =
     \<lparr>search_history = [item_first], quizzes = [0 \<mapsto> scenario_quiz], api_key = demo_key\<rparr>"
  by (simp add: after_quiz_def after_first_search_eq quiz_button_def generate_quiz_item_first
      truthy_scenario_quiz)
     (simp add: demo_key_def ascii_def)

lemma after_second_search_eq:
  "after_second_search =
     \<lparr>search_history = [item_second, item_first], quizzes = [0 \<mapsto> scenario_quiz],
      api_key = demo_key\<rparr>"
  by (simp add: after_second_search_def after_quiz_eq search_page_def
      search_web_def one_result_def demo_key_def ascii_def Let_def item_second_def
      get_summary_def gather_contents blocks_of_def scrape_content_offline
      failure_messages_look_failed)

text \<open>
  C2. New history items go in front (\<open>search_page_inserts_in_front\<close>), but the quizzes
  stay keyed by position. In the example session the quiz made from the first item is
  stored under key 0; after the second search row 0 is the second item, and the history
  page shows that quiz with it, while the first item, now in row 1, has none. The quiz is
  not one of the second item: the service gives no answer for its prompt.
\<close>

theorem quiz_moves_to_newer_history_item:
  "shown_quiz after_quiz 0 = Some (item_first, scenario_quiz) \<and>
   search_history after_second_search = [item_second, item_first] \<and>
   shown_quiz after_second_search 0 = Some (item_second, scenario_quiz) \<and>
   shown_quiz after_second_search 1 = None \<and>
   generate_quiz first_only_service demo_loads demo_key item_second = None"
  by (simp add: after_quiz_eq after_second_search_eq shown_quiz_def generate_quiz_item_second)

end
